theory Spec2Isabelle
  imports Main
begin

section \<open>The dependency document\<close>

text \<open>
  \<^verbatim>\<open>visualize_deps.py\<close> reads a JSON document of the shape
  \<^verbatim>\<open>{"project_name": s, "dependencies": [{"name": s, "type": s, "version": s, "cves": [{"id": s, ...}, ...]}, ...]}\<close>
  and reads every key with \<^verbatim>\<open>dict.get(key, default)\<close>. The model is over documents
  of this shape in which every key may be absent: a key of a dependency is an
  \<open>option\<close>, \<open>None\<close> being the absent key. A finding is a dictionary with string
  values, of which only the key \<^verbatim>\<open>"id"\<close> is read.
\<close>

type_synonym finding = "string \<rightharpoonup> string"

record dependency =
  name :: "string option"
  dep_type :: "string option"
  version :: "string option"
  cves :: "finding list option"

record project_document =
  project_name :: "string option"
  dependencies :: "dependency list option"

text \<open>\<^verbatim>\<open>d.get(key, default)\<close>, the looked-up key being given as an option.\<close>

definition get :: "'a option \<Rightarrow> 'a \<Rightarrow> 'a" where
  "get v dflt = (case v of None \<Rightarrow> dflt | Some x \<Rightarrow> x)"

section \<open>Configuration\<close>

text \<open>
  The three module constants. The functions below take them as a parameter, so that
  the properties are stated for every setting; \<open>default_config\<close> holds the values the
  source assigns.
\<close>

record config =
  SKIP_SYSTEM_LIBS :: bool
  OUTPUT_FORMAT :: string
  ENGINE :: string

definition default_config :: config where
  "default_config = \<lparr>SKIP_SYSTEM_LIBS = True, OUTPUT_FORMAT = ''png'', ENGINE = ''dot''\<rparr>"

section \<open>Color classification\<close>

text \<open>
  \<^verbatim>\<open>
  def get_security_color(dep):
      cves = dep.get("cves", [])
      if not cves: return "lightgrey"
      first_id = cves[0].get("id", "")
      if first_id == "SAFE": return "#90EE90"
      elif first_id == "NOT-CHECKED": return "lightgrey"
      elif first_id == "CHECK-ERROR": return "#FFE4B5"
      else: return "#FF6347"
  \<close>
\<close>

definition get_security_color :: "dependency \<Rightarrow> string" where
  "get_security_color dep =
     (case get (cves dep) [] of
        [] \<Rightarrow> ''lightgrey''
      | first # _ \<Rightarrow>
          (let first_id = get (first ''id'') ''''
           in if first_id = ''SAFE'' then ''#90EE90''
              else if first_id = ''NOT-CHECKED'' then ''lightgrey''
              else if first_id = ''CHECK-ERROR'' then ''#FFE4B5''
              else ''#FF6347''))"

section \<open>The graph description\<close>

text \<open>
  A \<^verbatim>\<open>graphviz.Digraph\<close> collects the statements of a DOT graph in its \<^verbatim>\<open>body\<close>, in the
  order of the calls, and carries the layout engine it will be rendered with. A new
  \<^verbatim>\<open>Digraph\<close> has the engine \<^verbatim>\<open>dot\<close>, the library's default: the source never passes
  \<^verbatim>\<open>ENGINE\<close> to it. A statement is recorded with the strings the call was given; the
  library quotes them when it writes the text.
\<close>

type_synonym attrs = "(string \<times> string) list"

datatype statement =
    GraphAttr attrs
  | DefaultAttr string attrs
  | Node string string attrs
  | Edge string string

record digraph =
  comment :: string
  engine :: string
  body :: "statement list"

definition Digraph :: "string \<Rightarrow> digraph" where
  "Digraph c = \<lparr>comment = c, engine = ''dot'', body = []\<rparr>"

definition attr :: "attrs \<Rightarrow> digraph \<Rightarrow> digraph" where
  "attr kvs g = g\<lparr>body := body g @ [GraphAttr kvs]\<rparr>"

definition attr_kw :: "string \<Rightarrow> attrs \<Rightarrow> digraph \<Rightarrow> digraph" where
  "attr_kw kw kvs g = g\<lparr>body := body g @ [DefaultAttr kw kvs]\<rparr>"

definition node :: "string \<Rightarrow> string \<Rightarrow> attrs \<Rightarrow> digraph \<Rightarrow> digraph" where
  "node n label kvs g = g\<lparr>body := body g @ [Node n label kvs]\<rparr>"

definition edge :: "string \<Rightarrow> string \<Rightarrow> digraph \<Rightarrow> digraph" where
  "edge tail_name head_name g = g\<lparr>body := body g @ [Edge tail_name head_name]\<rparr>"

section \<open>Building the graph\<close>

text \<open>
  Lines 40 to 46: the new graph, its two attribute statements and the root node.
\<close>

definition init_graph :: "project_document \<Rightarrow> digraph" where
  "init_graph data =
     (let dot = Digraph ''Dependency Graph'';
          dot = attr [(''rankdir'', ''LR'')] dot;
          dot = attr_kw ''node''
                  [(''shape'', ''box''), (''style'', ''filled''), (''fontname'', ''Helvetica'')] dot;
          project_name = get (project_name data) ''Project''
      in node ''ROOT'' project_name
           [(''shape'', ''doubleoctagon''), (''fillcolor'', ''lightblue'')] dot)"

text \<open>
  The state of the loop of lines 54 to 70: the graph and the two counters.
  \<^verbatim>\<open>
  for dep in dependencies:
      name = dep.get("name", "unknown")
      dep_type = dep.get("type", "unknown")
      version = dep.get("version", "?")
      if SKIP_SYSTEM_LIBS and dep_type == "system":
          skipped += 1
          continue
      label = f"{name}\n{version}\n({dep_type})"
      color = get_security_color(dep)
      dot.node(name, label, fillcolor=color)
      dot.edge('ROOT', name)
      count += 1
  \<close>
\<close>

record build_state =
  dot :: digraph
  count :: nat
  skipped :: nat

definition make_label :: "string \<Rightarrow> string \<Rightarrow> string \<Rightarrow> string" where
  "make_label n v t = n @ [CHR 0x0A] @ v @ [CHR 0x0A] @ ''('' @ t @ '')''"

definition build_step :: "config \<Rightarrow> dependency \<Rightarrow> build_state \<Rightarrow> build_state" where
  "build_step cfg dep st =
     (let n = get (name dep) ''unknown'';
          t = get (dep_type dep) ''unknown'';
          v = get (version dep) ''?''
      in if SKIP_SYSTEM_LIBS cfg \<and> t = ''system''
         then st\<lparr>skipped := skipped st + 1\<rparr>
         else
           (let label = make_label n v t;
                color = get_security_color dep
            in st\<lparr>dot := edge ''ROOT'' n (node n label [(''fillcolor'', color)] (dot st)),
                  count := count st + 1\<rparr>))"

primrec build_nodes :: "config \<Rightarrow> dependency list \<Rightarrow> build_state \<Rightarrow> build_state" where
  "build_nodes cfg [] st = st"
| "build_nodes cfg (dep # deps) st = build_nodes cfg deps (build_step cfg dep st)"

definition build :: "config \<Rightarrow> project_document \<Rightarrow> build_state" where
  "build cfg data =
     build_nodes cfg (get (dependencies data) [])
       \<lparr>dot = init_graph data, count = 0, skipped = 0\<rparr>"

section \<open>Files, console and the external tools\<close>

text \<open>
  The world the script runs in: the files (a path to its text), the paths that can be
  written, and the lines printed so far. A printed line is recorded as the report it
  makes, with the values it interpolates; the elapsed time of line 95 is left out.
\<close>

datatype message =
    Starting string
  | FileNotFound string
  | LoadingJson
  | LoadingDone
  | JsonError
  | BuildingNodes
  | BuildDone nat nat
  | SavingSource string
  | SavingDone
  | Rendering string string
  | SwitchingEngine
  | RenderDone
  | FileCreated string
  | EngineNotFound string
  | RenderingError string

datatype exception = OSError | ExecutableNotFound | CalledProcessError

record world =
  files :: "string \<rightharpoonup> string"
  writable :: "string \<Rightarrow> bool"
  console :: "message list"

definition print :: "message \<Rightarrow> world \<Rightarrow> world" where
  "print m w = w\<lparr>console := console w @ [m]\<rparr>"

text \<open>
  The tools the script delegates to: \<^verbatim>\<open>json.load\<close> (\<open>None\<close> when it raises), the text of
  a graph (\<^verbatim>\<open>Digraph.source\<close>), and the layout engine's executable, run with an engine
  name, an output format and the text of the graph.
\<close>

datatype engine_result = Image string | Missing | Failed

record ext =
  json_load :: "string \<Rightarrow> project_document option"
  dot_source :: "digraph \<Rightarrow> string"
  run_engine :: "string \<Rightarrow> string \<Rightarrow> string \<Rightarrow> engine_result"

text \<open>
  \<^verbatim>\<open>Digraph.save(filename)\<close> writes the text of the graph and returns the path;
  \<^verbatim>\<open>Digraph.render(filename, format=...)\<close> saves the text under \<^verbatim>\<open>filename\<close>, runs the
  graph's engine on it and returns the path of the image, \<^verbatim>\<open>filename.format\<close>. Each
  returns the exception it raises on the left, with the world as it is by then.
\<close>

definition save :: "ext \<Rightarrow> digraph \<Rightarrow> string \<Rightarrow> world \<Rightarrow> (exception + string) \<times> world" where
  "save x g filename w =
     (if writable w filename
      then (Inr filename, w\<lparr>files := (files w)(filename \<mapsto> dot_source x g)\<rparr>)
      else (Inl OSError, w))"

definition render ::
  "ext \<Rightarrow> digraph \<Rightarrow> string \<Rightarrow> string \<Rightarrow> world \<Rightarrow> (exception + string) \<times> world" where
  "render x g filename fmt w =
     (case save x g filename w of
        (Inl e, w1) \<Rightarrow> (Inl e, w1)
      | (Inr filepath, w1) \<Rightarrow>
          (case run_engine x (engine g) fmt (dot_source x g) of
             Image img \<Rightarrow>
               (Inr (filepath @ ''.'' @ fmt),
                w1\<lparr>files := (files w1)(filepath @ ''.'' @ fmt \<mapsto> img)\<rparr>)
           | Missing \<Rightarrow> (Inl ExecutableNotFound, w1)
           | Failed \<Rightarrow> (Inl CalledProcessError, w1)))"

section \<open>The script\<close>

text \<open>
  Lines 89 to 91, inside the \<^verbatim>\<open>try\<close>:
  \<^verbatim>\<open>
  if count > 100 and ENGINE == 'dot':
      print("... Wechsle zu 'sfdp' Engine ...")
      dot.engine = 'sfdp'
  \<close>
\<close>

definition choose_engine :: "config \<Rightarrow> build_state \<Rightarrow> world \<Rightarrow> digraph \<times> world" where
  "choose_engine cfg st w =
     (if count st > 100 \<and> ENGINE cfg = ''dot''
      then ((dot st)\<lparr>engine := ''sfdp''\<rparr>, print SwitchingEngine w)
      else (dot st, w))"

text \<open>
  Lines 86 to 104: the \<^verbatim>\<open>try\<close> with its two handlers. Both handlers print and fall
  through to the end of the function.
\<close>

definition render_step ::
  "config \<Rightarrow> ext \<Rightarrow> build_state \<Rightarrow> string \<Rightarrow> string \<Rightarrow> world \<Rightarrow> world" where
  "render_step cfg x st output_filename src_path w =
     (let (g, w1) = choose_engine cfg st w
      in case render x g output_filename (OUTPUT_FORMAT cfg) w1 of
           (Inr _, w2) \<Rightarrow>
             print (FileCreated (output_filename @ ''.'' @ OUTPUT_FORMAT cfg))
               (print RenderDone w2)
         | (Inl e, w2) \<Rightarrow>
             (if e = ExecutableNotFound
              then print (EngineNotFound src_path) w2
              else print (RenderingError (output_filename @ ''.gv'')) w2))"

text \<open>
  \<^verbatim>\<open>visualize(json_file)\<close>. The result is the exception that leaves the function, if
  any, and the world at that moment. The only call outside a \<^verbatim>\<open>try\<close> that can raise
  on a document of the modelled shape is \<^verbatim>\<open>dot.save\<close>.
\<close>

definition visualize ::
  "config \<Rightarrow> ext \<Rightarrow> string \<Rightarrow> world \<Rightarrow> exception option \<times> world" where
  "visualize cfg x json_file w0 =
     (let w = print (Starting json_file) w0
      in case files w json_file of
           None \<Rightarrow> (None, print (FileNotFound json_file) w)
         | Some text \<Rightarrow>
             (let w = print LoadingJson w
              in case json_load x text of
                   None \<Rightarrow> (None, print JsonError w)
                 | Some data \<Rightarrow>
                     (let w = print LoadingDone w;
                          w = print BuildingNodes w;
                          st = build cfg data;
                          w = print (BuildDone (count st) (skipped st)) w;
                          output_filename = ''dependency_graph'';
                          w = print (SavingSource (output_filename @ ''.gv'')) w
                      in case save x (dot st) (output_filename @ ''.gv'') w of
                           (Inl e, w) \<Rightarrow> (Some e, w)
                         | (Inr src_path, w) \<Rightarrow>
                             (let w = print SavingDone w;
                                  w = print (Rendering (ENGINE cfg) (OUTPUT_FORMAT cfg)) w
                              in (None, render_step cfg x st output_filename src_path w)))))"

text \<open>
  The script's entry point: the path is the first argument when there is one, and the
  exit status is 0 when \<^verbatim>\<open>visualize\<close> returns, 1 when an exception leaves it.
\<close>

definition main :: "config \<Rightarrow> ext \<Rightarrow> string list \<Rightarrow> world \<Rightarrow> nat \<times> world" where
  "main cfg x argv w =
     (let path = (if length argv > 1 then argv ! 1 else ''depdiscover.json'')
      in case visualize cfg x path w of
           (None, w') \<Rightarrow> (0, w')
         | (Some e, w') \<Rightarrow> (1, w'))"

section \<open>Reading a graph description\<close>







text \<open>
  The test of line 60 on one dependency, and the names the loop gives to the
  dependencies it retains.
\<close>

definition is_skipped :: "config \<Rightarrow> dependency \<Rightarrow> bool" where
  "is_skipped cfg dep = (SKIP_SYSTEM_LIBS cfg \<and> get (dep_type dep) ''unknown'' = ''system'')"



section \<open>Example inputs\<close>

definition example_world :: world where
  "example_world = \<lparr>files = [''deps.json'' \<mapsto> ''{}''], writable = (\<lambda>p. True), console = []\<rparr>"

definition example_dep :: "string \<Rightarrow> string \<Rightarrow> finding list \<Rightarrow> dependency" where
  "example_dep n t fs = \<lparr>name = Some n, dep_type = Some t, version = Some ''1.0'', cves = Some fs\<rparr>"

definition absent_dep :: dependency where
  "absent_dep = \<lparr>name = None, dep_type = None, version = None, cves = None\<rparr>"

definition example_doc :: "dependency list \<Rightarrow> project_document" where
  "example_doc deps = \<lparr>project_name = None, dependencies = Some deps\<rparr>"

definition example_ext :: "project_document \<Rightarrow> engine_result \<Rightarrow> ext" where
  "example_ext data r =
     \<lparr>json_load = (\<lambda>text. Some data), dot_source = (\<lambda>g. ''digraph''),
      run_engine = (\<lambda>e fmt src. r)\<rparr>"

section \<open>The build loop, step by step\<close>

text \<open>
  What one pass of the loop does to the counters, the body and the other fields of the
  graph, and what the whole loop does, by induction on the dependency list with the
  state generalised.
\<close>

lemma build_step_counts:
  "count (build_step cfg dep st) = (if is_skipped cfg dep then count st else count st + 1)"
  "skipped (build_step cfg dep st) = (if is_skipped cfg dep then skipped st + 1 else skipped st)"
  by (simp_all add: build_step_def is_skipped_def Let_def)


lemma build_step_engine:
  "engine (dot (build_step cfg dep st)) = engine (dot st)"
  "comment (dot (build_step cfg dep st)) = comment (dot st)"
  by (simp_all add: build_step_def Let_def node_def edge_def)

lemma build_nodes_count:
  "count (build_nodes cfg deps st) = count st + length (filter (\<lambda>d. \<not> is_skipped cfg d) deps)"
  by (induction deps arbitrary: st) (simp_all add: build_step_counts)

lemma build_nodes_skipped:
  "skipped (build_nodes cfg deps st) = skipped st + length (filter (is_skipped cfg) deps)"
  by (induction deps arbitrary: st) (simp_all add: build_step_counts)

lemma build_nodes_engine:
  "engine (dot (build_nodes cfg deps st)) = engine (dot st)"
  by (induction deps arbitrary: st) (simp_all add: build_step_engine)


lemma build_nodes_comment:
  "comment (dot (build_nodes cfg deps st)) = comment (dot st)"
  by (induction deps arbitrary: st) (simp_all add: build_step_engine)






lemma init_graph_engine: "engine (init_graph data) = ''dot''"
  by (simp add: init_graph_def Digraph_def attr_def attr_kw_def node_def Let_def)

section \<open>The render step\<close>

text \<open>
  The graph chosen by lines 89 to 91 does not depend on the world, printing changes
  the console only, and a render that fails leaves the saved source in place and ends
  with the report of the handler that caught the exception.
\<close>

lemma choose_engine_fst:
  "fst (choose_engine cfg st w) =
     (if 100 < count st \<and> ENGINE cfg = ''dot'' then (dot st)\<lparr>engine := ''sfdp''\<rparr> else dot st)"
  by (simp add: choose_engine_def)

lemma print_fields:
  "files (print m w) = files w"
  "writable (print m w) = writable w"
  "console (print m w) = console w @ [m]"
  by (simp_all add: print_def)

lemma render_step_failure:
  assumes "\<not> writable w ''dependency_graph'' \<or>
           run_engine x (engine (fst (choose_engine cfg st w))) (OUTPUT_FORMAT cfg)
             (dot_source x (fst (choose_engine cfg st w))) \<in> {Missing, Failed}"
  shows "files (render_step cfg x st ''dependency_graph'' src w) ''dependency_graph.gv'' =
           files w ''dependency_graph.gv''
       \<and> last (console (render_step cfg x st ''dependency_graph'' src w)) =
           (if writable w ''dependency_graph'' \<and>
               run_engine x (engine (fst (choose_engine cfg st w))) (OUTPUT_FORMAT cfg)
                 (dot_source x (fst (choose_engine cfg st w))) = Missing
            then EngineNotFound src else RenderingError ''dependency_graph.gv'')"
  using assms
  by (auto simp add: render_step_def render_def save_def choose_engine_def print_def
      split: prod.splits sum.splits engine_result.splits if_splits)

section \<open>Properties of the color classification\<close>

text \<open>
  C1. The color of a dependency is lightgrey when it has no finding (the key absent or
  the list empty); with a first finding, it is the safe color \<^verbatim>\<open>#90EE90\<close> when the
  finding's id is SAFE, lightgrey again when it is NOT-CHECKED, the warning color
  \<^verbatim>\<open>#FFE4B5\<close> when it is CHECK-ERROR, and the danger color \<^verbatim>\<open>#FF6347\<close> for every other
  id.
\<close>

theorem get_security_color_cases:
  "(get (cves dep) [] = [] \<longrightarrow> get_security_color dep = ''lightgrey'')
   \<and> (\<forall>f fs. cves dep = Some (f # fs) \<longrightarrow>
         (get (f ''id'') '''' = ''SAFE'' \<longrightarrow> get_security_color dep = ''#90EE90'')
       \<and> (get (f ''id'') '''' = ''NOT-CHECKED'' \<longrightarrow> get_security_color dep = ''lightgrey'')
       \<and> (get (f ''id'') '''' = ''CHECK-ERROR'' \<longrightarrow> get_security_color dep = ''#FFE4B5'')
       \<and> (get (f ''id'') '''' \<notin> {''SAFE'', ''NOT-CHECKED'', ''CHECK-ERROR''} \<longrightarrow>
            get_security_color dep = ''#FF6347''))"
  by (simp add: get_security_color_def get_def)

text \<open>
  One dependency for each case: no finding, no \<^verbatim>\<open>cves\<close> key, and a first finding with
  each of the three sentinel ids and with a CVE id.
\<close>

theorem get_security_color_cases_witness:
  "get_security_color (example_dep ''a'' ''library'' []) = ''lightgrey''
   \<and> get_security_color absent_dep = ''lightgrey''
   \<and> get_security_color (example_dep ''a'' ''library'' [[''id'' \<mapsto> ''SAFE'']]) = ''#90EE90''
   \<and> get_security_color (example_dep ''a'' ''library'' [[''id'' \<mapsto> ''NOT-CHECKED'']]) = ''lightgrey''
   \<and> get_security_color (example_dep ''a'' ''library'' [[''id'' \<mapsto> ''CHECK-ERROR'']]) = ''#FFE4B5''
   \<and> get_security_color (example_dep ''a'' ''library'' [[''id'' \<mapsto> ''CVE-2023-1234'']]) = ''#FF6347''"
  using get_security_color_cases [of "example_dep ''a'' ''library'' []"]
    get_security_color_cases [of absent_dep]
    get_security_color_cases [of "example_dep ''a'' ''library'' [[''id'' \<mapsto> ''SAFE'']]"]
    get_security_color_cases [of "example_dep ''a'' ''library'' [[''id'' \<mapsto> ''NOT-CHECKED'']]"]
    get_security_color_cases [of "example_dep ''a'' ''library'' [[''id'' \<mapsto> ''CHECK-ERROR'']]"]
    get_security_color_cases [of "example_dep ''a'' ''library'' [[''id'' \<mapsto> ''CVE-2023-1234'']]"]
  by (simp add: example_dep_def absent_dep_def get_def)

text \<open>
  C4. The color depends on the first finding only, and there on its id only: two
  dependencies whose finding lists are non-empty and start with the same finding, or
  with findings of the same id, get the same color, whatever the later findings and
  the other keys of the two dependencies are.
\<close>

theorem color_depends_on_first_id:
  "(cves d1 = Some (f # r1) \<and> cves d2 = Some (f # r2) \<longrightarrow>
      get_security_color d1 = get_security_color d2)
   \<and> (cves d1 = Some (f1 # r1) \<and> cves d2 = Some (f2 # r2) \<and> f1 ''id'' = f2 ''id'' \<longrightarrow>
      get_security_color d1 = get_security_color d2)"
  by (simp add: get_security_color_def get_def)

text \<open>
  Two dependencies of different name and type whose lists start with the same finding;
  the first has a CVE as its second finding.
\<close>

theorem color_depends_on_first_id_witness:
  "cves (example_dep ''a'' ''library'' [[''id'' \<mapsto> ''SAFE''], [''id'' \<mapsto> ''CVE-2023-1234'']])
     = Some ([''id'' \<mapsto> ''SAFE''] # [[''id'' \<mapsto> ''CVE-2023-1234'']])
   \<and> cves (example_dep ''b'' ''system'' [[''id'' \<mapsto> ''SAFE'']]) = Some ([''id'' \<mapsto> ''SAFE''] # [])
   \<and> get_security_color (example_dep ''a'' ''library'' [[''id'' \<mapsto> ''SAFE''], [''id'' \<mapsto> ''CVE-2023-1234'']])
     = get_security_color (example_dep ''b'' ''system'' [[''id'' \<mapsto> ''SAFE'']])"
proof -
  have a: "cves (example_dep ''a'' ''library'' [[''id'' \<mapsto> ''SAFE''], [''id'' \<mapsto> ''CVE-2023-1234'']])
     = Some ([''id'' \<mapsto> ''SAFE''] # [[''id'' \<mapsto> ''CVE-2023-1234'']])"
    by (simp add: example_dep_def)
  have b: "cves (example_dep ''b'' ''system'' [[''id'' \<mapsto> ''SAFE'']]) = Some ([''id'' \<mapsto> ''SAFE''] # [])"
    by (simp add: example_dep_def)
  from color_depends_on_first_id [of "example_dep ''a'' ''library'' [[''id'' \<mapsto> ''SAFE''], [''id'' \<mapsto> ''CVE-2023-1234'']]"
      "[''id'' \<mapsto> ''SAFE'']" "[[''id'' \<mapsto> ''CVE-2023-1234'']]" "example_dep ''b'' ''system'' [[''id'' \<mapsto> ''SAFE'']]" "[]"]
    a b show ?thesis by blast
qed

text \<open>
  C10. When the first finding of a dependency has no \<^verbatim>\<open>id\<close> key, the id read is the empty
  string, which is none of the three sentinels, and the dependency gets the danger
  color \<^verbatim>\<open>#FF6347\<close>.
\<close>

theorem missing_id_is_danger:
  assumes "cves dep = Some (f # fs)" and "f ''id'' = None"
  shows "get (f ''id'') '''' = '''' \<and> get_security_color dep = ''#FF6347''"
  using assms by (simp add: get_security_color_def get_def)

text \<open>
  A dependency whose only finding has a \<^verbatim>\<open>severity\<close> key and no \<^verbatim>\<open>id\<close>.
\<close>

theorem missing_id_is_danger_witness:
  "cves (example_dep ''a'' ''library'' [[''severity'' \<mapsto> ''high'']]) = Some ([''severity'' \<mapsto> ''high''] # [])
   \<and> [''severity'' \<mapsto> ''high''] ''id'' = None
   \<and> get_security_color (example_dep ''a'' ''library'' [[''severity'' \<mapsto> ''high'']]) = ''#FF6347''"
proof -
  have a: "cves (example_dep ''a'' ''library'' [[''severity'' \<mapsto> ''high'']]) = Some ([''severity'' \<mapsto> ''high''] # [])"
    by (simp add: example_dep_def)
  have b: "[''severity'' \<mapsto> ''high''] ''id'' = None"
    by simp
  from missing_id_is_danger [OF a b] a b show ?thesis by simp
qed

section \<open>The counters and the graph\<close>

text \<open>
  C2. For every dependency list and every setting of \<^verbatim>\<open>SKIP_SYSTEM_LIBS\<close>, after the loop the
  two counters add up to the number of dependencies: \<open>skipped\<close> counts the dependencies
  for which the flag is set and the type is \<^verbatim>\<open>system\<close>, \<open>count\<close> counts the others, and one
  pass of the loop increments exactly one of the two.
\<close>

theorem counters_partition:
  "count (build cfg data) + skipped (build cfg data) = length (get (dependencies data) [])
   \<and> skipped (build cfg data) = length (filter (is_skipped cfg) (get (dependencies data) []))
   \<and> count (build cfg data) =
       length (filter (\<lambda>dep. \<not> is_skipped cfg dep) (get (dependencies data) []))
   \<and> (count (build_step cfg dep st), skipped (build_step cfg dep st)) =
       (if SKIP_SYSTEM_LIBS cfg \<and> get (dep_type dep) ''unknown'' = ''system''
        then (count st, skipped st + 1) else (count st + 1, skipped st))"
proof -
  let ?deps = "get (dependencies data) []"
  have c: "count (build cfg data) = length (filter (\<lambda>dep. \<not> is_skipped cfg dep) ?deps)"
    by (simp add: build_def build_nodes_count)
  have s: "skipped (build cfg data) = length (filter (is_skipped cfg) ?deps)"
    by (simp add: build_def build_nodes_skipped)
  have "length (filter (\<lambda>dep. \<not> is_skipped cfg dep) ?deps) + length (filter (is_skipped cfg) ?deps)
        = length ?deps"
    using sum_length_filter_compl [of "is_skipped cfg" ?deps] by simp
  with c s show ?thesis
    by (simp add: build_step_counts is_skipped_def)
qed

text \<open>
  A system library, a library and a dependency without keys: under the default
  configuration one is skipped and two are retained; with \<^verbatim>\<open>SKIP_SYSTEM_LIBS\<close> off none
  is skipped.
\<close>

theorem counters_partition_witness:
  "count (build default_config
     (example_doc [example_dep ''libc'' ''system'' [], example_dep ''zlib'' ''library'' [], absent_dep])) = 2
   \<and> skipped (build default_config
     (example_doc [example_dep ''libc'' ''system'' [], example_dep ''zlib'' ''library'' [], absent_dep])) = 1
   \<and> skipped (build (default_config\<lparr>SKIP_SYSTEM_LIBS := False\<rparr>)
     (example_doc [example_dep ''libc'' ''system'' [], example_dep ''zlib'' ''library'' [], absent_dep])) = 0"
  using counters_partition [of default_config
      "example_doc [example_dep ''libc'' ''system'' [], example_dep ''zlib'' ''library'' [], absent_dep]"]
    counters_partition [of "default_config\<lparr>SKIP_SYSTEM_LIBS := False\<rparr>"
      "example_doc [example_dep ''libc'' ''system'' [], example_dep ''zlib'' ''library'' [], absent_dep]"]
  by (simp add: default_config_def example_doc_def example_dep_def absent_dep_def get_def
      is_skipped_def)






section \<open>Rendering and errors\<close>

text \<open>
  C6. The graph handed to the renderer has the engine \<^verbatim>\<open>sfdp\<close> if \<open>count\<close> is above 100
  and \<^verbatim>\<open>ENGINE\<close> is \<^verbatim>\<open>dot\<close>, and the engine \<^verbatim>\<open>dot\<close> it was built with otherwise: the
  engine changes if and only if both conditions hold.
\<close>

theorem engine_switch:
  "engine (fst (choose_engine cfg (build cfg data) w)) =
     (if 100 < count (build cfg data) \<and> ENGINE cfg = ''dot'' then ''sfdp'' else ''dot'')
   \<and> (engine (fst (choose_engine cfg (build cfg data) w)) \<noteq> engine (dot (build cfg data)))
       = (100 < count (build cfg data) \<and> ENGINE cfg = ''dot'')"
proof -
  have "engine (dot (build cfg data)) = ''dot''"
    by (simp add: build_def build_nodes_engine init_graph_engine)
  then show ?thesis
    by (simp add: choose_engine_def)
qed

text \<open>
  The threshold under the default configuration: 100 retained dependencies keep
  \<^verbatim>\<open>dot\<close>, 101 switch to \<^verbatim>\<open>sfdp\<close>; with \<^verbatim>\<open>ENGINE\<close> set to \<^verbatim>\<open>neato\<close>, 101 keep the engine
  the graph was built with.
\<close>

theorem engine_switch_witness:
  "engine (fst (choose_engine default_config
      (build default_config (example_doc (replicate 100 (example_dep ''zlib'' ''library'' []))))
      example_world)) = ''dot''
   \<and> engine (fst (choose_engine default_config
      (build default_config (example_doc (replicate 101 (example_dep ''zlib'' ''library'' []))))
      example_world)) = ''sfdp''
   \<and> engine (fst (choose_engine (default_config\<lparr>ENGINE := ''neato''\<rparr>)
      (build (default_config\<lparr>ENGINE := ''neato''\<rparr>)
         (example_doc (replicate 101 (example_dep ''zlib'' ''library'' []))))
      example_world)) = ''dot''"
proof -
  have e: "ENGINE default_config = ''dot''"
    "ENGINE (default_config\<lparr>ENGINE := ''neato''\<rparr>) = ''neato''"
    by (simp_all add: default_config_def)
  have c: "count (build cfg (example_doc (replicate n (example_dep ''zlib'' ''library'' [])))) = n"
    for cfg n
    by (simp add: build_def build_nodes_count example_doc_def example_dep_def get_def
        is_skipped_def)
  from engine_switch [of default_config
      "example_doc (replicate 100 (example_dep ''zlib'' ''library'' []))" example_world]
    engine_switch [of default_config
      "example_doc (replicate 101 (example_dep ''zlib'' ''library'' []))" example_world]
    engine_switch [of "default_config\<lparr>ENGINE := ''neato''\<rparr>"
      "example_doc (replicate 101 (example_dep ''zlib'' ''library'' []))" example_world]
  show ?thesis
    by (simp add: c e)
qed

text \<open>
  C7. When the input path does not exist, \<^verbatim>\<open>visualize\<close> prints the start line and the
  file-not-found report and returns: nothing is parsed, no file is written, and the
  exit status is 0.
\<close>

theorem input_not_found:
  assumes "files w json_file = None"
  shows "visualize cfg x json_file w =
           (None, w\<lparr>console := console w @ [Starting json_file, FileNotFound json_file]\<rparr>)
         \<and> files (snd (visualize cfg x json_file w)) = files w
         \<and> fst (main cfg x [prog, json_file] w) = 0"
  using assms by (simp add: visualize_def main_def print_def Let_def)

text \<open>The path \<^verbatim>\<open>missing.json\<close> in a world that holds only \<^verbatim>\<open>deps.json\<close>.\<close>

theorem input_not_found_witness:
  "files example_world ''missing.json'' = None
   \<and> visualize default_config (example_ext (example_doc []) Missing) ''missing.json'' example_world =
       (None, example_world\<lparr>console := console example_world @
          [Starting ''missing.json'', FileNotFound ''missing.json'']\<rparr>)
   \<and> files (snd (visualize default_config (example_ext (example_doc []) Missing) ''missing.json'' example_world)) ''dependency_graph.gv'' = None"
proof -
  have h: "files example_world ''missing.json'' = None"
    by (simp add: example_world_def)
  have g: "files example_world ''dependency_graph.gv'' = None"
    by (simp add: example_world_def)
  from input_not_found [OF h] g h show ?thesis by simp
qed

text \<open>
  C8. When the document is loaded, the source file \<^verbatim>\<open>dependency_graph.gv\<close> is saved and
  the rendering fails (the engine's executable is missing, the engine fails, or
  \<^verbatim>\<open>render\<close> cannot write its copy of the source), \<^verbatim>\<open>visualize\<close> returns without an
  exception, the saved file still holds the text of the built graph, the last line
  printed is the report of the failure (the executable-not-found report for a missing
  executable, the rendering-error report otherwise), and the exit status is 0.
\<close>

theorem render_failure_keeps_source:
  assumes "files w json_file = Some text"
    and "json_load x text = Some data"
    and "writable w ''dependency_graph.gv''"
    and "\<not> writable w ''dependency_graph'' \<or>
         run_engine x (engine (fst (choose_engine cfg (build cfg data) w))) (OUTPUT_FORMAT cfg)
           (dot_source x (fst (choose_engine cfg (build cfg data) w))) \<in> {Missing, Failed}"
  shows "fst (visualize cfg x json_file w) = None
       \<and> files (snd (visualize cfg x json_file w)) ''dependency_graph.gv'' =
           Some (dot_source x (dot (build cfg data)))
       \<and> last (console (snd (visualize cfg x json_file w))) =
           (if writable w ''dependency_graph'' \<and>
               run_engine x (engine (fst (choose_engine cfg (build cfg data) w))) (OUTPUT_FORMAT cfg)
                 (dot_source x (fst (choose_engine cfg (build cfg data) w))) = Missing
            then EngineNotFound ''dependency_graph.gv''
            else RenderingError ''dependency_graph.gv'')
       \<and> fst (main cfg x [prog, json_file] w) = 0"
proof -
  let ?st = "build cfg data"
  let ?w1 = "print (SavingSource ''dependency_graph.gv'')
              (print (BuildDone (count ?st) (skipped ?st))
                (print BuildingNodes (print LoadingDone (print LoadingJson
                  (print (Starting json_file) w)))))"
  let ?w2 = "?w1\<lparr>files := (files ?w1)(''dependency_graph.gv'' \<mapsto> dot_source x (dot ?st))\<rparr>"
  let ?w3 = "print (Rendering (ENGINE cfg) (OUTPUT_FORMAT cfg)) (print SavingDone ?w2)"
  have sv: "save x (dot ?st) ''dependency_graph.gv'' ?w1 = (Inr ''dependency_graph.gv'', ?w2)"
    using assms(3) by (simp add: save_def print_fields)
  have v: "visualize cfg x json_file w =
             (None, render_step cfg x ?st ''dependency_graph'' ''dependency_graph.gv'' ?w3)"
    using assms(1,2) sv by (simp add: visualize_def Let_def print_fields)
  have g: "fst (choose_engine cfg ?st ?w3) = fst (choose_engine cfg ?st w)"
    by (simp add: choose_engine_fst)
  have wr: "writable ?w3 = writable w"
    by (simp add: print_fields)
  have f: "files ?w3 ''dependency_graph.gv'' = Some (dot_source x (dot ?st))"
    by (simp add: print_fields)
  have fail: "\<not> writable ?w3 ''dependency_graph'' \<or>
           run_engine x (engine (fst (choose_engine cfg ?st ?w3))) (OUTPUT_FORMAT cfg)
             (dot_source x (fst (choose_engine cfg ?st ?w3))) \<in> {Missing, Failed}"
    using assms(4) unfolding g wr .
  from render_step_failure [OF fail, of "''dependency_graph.gv''"] v f
  show ?thesis
    unfolding g wr by (simp add: main_def)
qed

text \<open>
  The default configuration on a document of one dependency, once with the engine's
  executable missing and once with an engine that fails.
\<close>

theorem render_failure_keeps_source_witness:
  "fst (visualize default_config (example_ext (example_doc [absent_dep]) Missing) ''deps.json''
          example_world) = None
   \<and> files (snd (visualize default_config (example_ext (example_doc [absent_dep]) Missing)
          ''deps.json'' example_world)) ''dependency_graph.gv'' = Some ''digraph''
   \<and> last (console (snd (visualize default_config (example_ext (example_doc [absent_dep]) Missing)
          ''deps.json'' example_world))) = EngineNotFound ''dependency_graph.gv''
   \<and> last (console (snd (visualize default_config (example_ext (example_doc [absent_dep]) Failed)
          ''deps.json'' example_world))) = RenderingError ''dependency_graph.gv''
   \<and> fst (main default_config (example_ext (example_doc [absent_dep]) Failed)
          [''visualize_deps.py'', ''deps.json''] example_world) = 0"
proof -
  have f: "files example_world ''deps.json'' = Some ''{}''"
    by (simp add: example_world_def)
  have j: "json_load (example_ext (example_doc [absent_dep]) r) ''{}'' = Some (example_doc [absent_dep])"
    for r by (simp add: example_ext_def)
  have w: "writable example_world ''dependency_graph.gv''"
    by (simp add: example_world_def)
  have m: "\<not> writable example_world ''dependency_graph'' \<or>
     run_engine (example_ext (example_doc [absent_dep]) Missing)
       (engine (fst (choose_engine default_config (build default_config (example_doc [absent_dep]))
          example_world)))
       (OUTPUT_FORMAT default_config)
       (dot_source (example_ext (example_doc [absent_dep]) Missing)
          (fst (choose_engine default_config (build default_config (example_doc [absent_dep]))
             example_world))) \<in> {Missing, Failed}"
    by (simp add: example_ext_def)
  have n: "\<not> writable example_world ''dependency_graph'' \<or>
     run_engine (example_ext (example_doc [absent_dep]) Failed)
       (engine (fst (choose_engine default_config (build default_config (example_doc [absent_dep]))
          example_world)))
       (OUTPUT_FORMAT default_config)
       (dot_source (example_ext (example_doc [absent_dep]) Failed)
          (fst (choose_engine default_config (build default_config (example_doc [absent_dep]))
             example_world))) \<in> {Missing, Failed}"
    by (simp add: example_ext_def)
  from render_failure_keeps_source [OF f j w m, of "''visualize_deps.py''"]
    render_failure_keeps_source [OF f j w n, of "''visualize_deps.py''"]
  show ?thesis
    by (simp add: example_ext_def example_world_def)
qed

text \<open>
  C9, as amended. Between the save and the call of \<^verbatim>\<open>render\<close> the statements of the
  graph and its comment are not changed. The one field lines 89 to 91 may change is
  the engine, set to \<^verbatim>\<open>sfdp\<close> when \<open>count\<close> is above 100 and \<^verbatim>\<open>ENGINE\<close> is \<^verbatim>\<open>dot\<close>; the
  graph handed to the renderer is the saved one with that engine.
\<close>

theorem only_engine_changes:
  "body (fst (choose_engine cfg st w)) = body (dot st)
   \<and> comment (fst (choose_engine cfg st w)) = comment (dot st)
   \<and> fst (choose_engine cfg st w) =
       (dot st)\<lparr>engine := (if 100 < count st \<and> ENGINE cfg = ''dot'' then ''sfdp''
                            else engine (dot st))\<rparr>"
  by (simp add: choose_engine_fst)

text \<open>
  With 101 retained dependencies the graph handed to the renderer is the saved graph
  with the engine \<^verbatim>\<open>sfdp\<close>.
\<close>

theorem only_engine_changes_witness:
  "fst (choose_engine default_config
      (build default_config (example_doc (replicate 101 (example_dep ''zlib'' ''library'' []))))
      example_world) =
   (dot (build default_config (example_doc (replicate 101 (example_dep ''zlib'' ''library'' [])))))
     \<lparr>engine := ''sfdp''\<rparr>"
proof -
  have e: "ENGINE default_config = ''dot''"
    by (simp add: default_config_def)
  have c: "count (build default_config (example_doc (replicate 101 (example_dep ''zlib'' ''library'' [])))) = 101"
    by (simp add: build_def build_nodes_count example_doc_def example_dep_def get_def
        is_skipped_def)
  from only_engine_changes [of default_config
      "build default_config (example_doc (replicate 101 (example_dep ''zlib'' ''library'' [])))"
      example_world]
  show ?thesis
    by (simp add: c e)
qed

text \<open>
  C9 as stated fails for a document of 101 retained dependencies under the default
  configuration: the graph was saved with the engine \<^verbatim>\<open>dot\<close> and is handed to the
  renderer with the engine \<^verbatim>\<open>sfdp\<close>.
\<close>

theorem no_mutation_counterexample:
  "engine (fst (choose_engine default_config
      (build default_config (example_doc (replicate 101 (example_dep ''zlib'' ''library'' []))))
      example_world))
   \<noteq> engine (dot (build default_config
      (example_doc (replicate 101 (example_dep ''zlib'' ''library'' [])))))"
proof -
  have "count (build default_config
      (example_doc (replicate 101 (example_dep ''zlib'' ''library'' [])))) = 101"
    by (simp add: build_def build_nodes_count example_doc_def example_dep_def get_def
        is_skipped_def)
  moreover have "engine (dot (build default_config
      (example_doc (replicate 101 (example_dep ''zlib'' ''library'' []))))) = ''dot''"
    by (simp add: build_def build_nodes_engine init_graph_engine)
  ultimately show ?thesis
    by (simp add: choose_engine_fst default_config_def)
qed

end
